theory Spec2Isabelle
  imports Complex_Main
begin

section \<open>Numbers\<close>

text \<open>
  A JavaScript number is a finite value, one of the two infinities, or \<^verbatim>\<open>NaN\<close>. The
  finite values are kept as reals: the handlers compare numbers with 0 and 1 and pass them
  on, and the two zeros, which these comparisons do not tell apart, are one value here.
\<close>

datatype jsnumber = NaN | Num real | Infinity | Minus_Infinity


section \<open>Types of the application (types/index.ts)\<close>

datatype freq = NEVER | DAILY | WORKDAY | WEEKLY | FORTNIGHTLY

text \<open>The event-type tag; \<open>FirstMeeting\<close> is the literal \<^verbatim>\<open>'1st'\<close>.\<close>

datatype event_type = Meeting | FirstMeeting | Presentation | Event

text \<open>
  Instants travel as ISO strings. An optional field (\<^verbatim>\<open>f?: string\<close>) is an
  \<open>option\<close>; \<open>None\<close> is \<^verbatim>\<open>undefined\<close>.
\<close>

record Occurrence =
  series_id :: int
  occurrence_start_utc :: string
  original_occurrence_start_utc :: "string option"
  duration_minutes :: jsnumber
  title :: string
  link :: string
  "notes" :: string
  location :: string
  host :: string
  event_type :: "event_type option"
  is_exception :: bool
  frequency :: freq
  localStart :: "string option"

record CreateSeriesRequest =
  title :: string
  start_utc :: string
  duration_minutes :: jsnumber
  freq :: freq
  byweekday :: "string list option"
  interval :: "int option"
  until_utc :: "string option"
  link :: "string option"
  "notes" :: "string option"
  location :: "string option"
  host :: "string option"
  event_type :: "event_type option"

text \<open>\<^verbatim>\<open>UpdateSeriesRequest extends Partial<CreateSeriesRequest>\<close>: every inherited field is optional.\<close>

record UpdateSeriesRequest =
  id :: int
  title :: "string option"
  start_utc :: "string option"
  duration_minutes :: "jsnumber option"
  freq :: "freq option"
  byweekday :: "string list option"
  interval :: "int option"
  until_utc :: "string option"
  link :: "string option"
  "notes" :: "string option"
  location :: "string option"
  host :: "string option"
  event_type :: "event_type option"

record CreateOccurrenceOverrideRequest =
  occurrence_start_utc :: string
  override_start_utc :: "string option"
  override_duration_minutes :: "jsnumber option"
  override_title :: "string option"
  override_link :: "string option"
  override_notes :: "string option"
  override_location :: "string option"
  override_host :: "string option"
  override_event_type :: "event_type option"

record CalendarState =
  selectedWeekStartISO :: string
  timezone :: string
  occurrences :: "string \<rightharpoonup> Occurrence list"
  loading :: bool
  error :: "string option"


section \<open>JavaScript values used by the components\<close>

text \<open>A string is falsy exactly when it is empty; \<^verbatim>\<open>undefined\<close> is falsy.\<close>

definition truthy :: "string \<Rightarrow> bool" where
  "truthy s = (s \<noteq> [])"

definition truthy_opt :: "string option \<Rightarrow> bool" where
  "truthy_opt v = (case v of None \<Rightarrow> False | Some s \<Rightarrow> truthy s)"

text \<open>
  \<^verbatim>\<open>a || b\<close> on strings and on optional strings. Behind a truthiness test,
  \<open>or_string_opt a []\<close> reads the string that the optional value then holds.
\<close>

definition or_string :: "string \<Rightarrow> string \<Rightarrow> string" where
  "or_string a b = (if truthy a then a else b)"

definition or_string_opt :: "string option \<Rightarrow> string \<Rightarrow> string" where
  "or_string_opt a b = (case a of None \<Rightarrow> b | Some s \<Rightarrow> or_string s b)"

text \<open>
  Strings are kept as the bytes of their UTF-8 encoding. \<open>white_space\<close> lists the code
  points that \<^verbatim>\<open>trim\<close> removes, the white space and the line terminators of the
  language: U+0009 to U+000D, U+0020, U+00A0, U+1680, U+2000 to U+200A, U+2028, U+2029,
  U+202F, U+205F, U+3000 and U+FEFF.
\<close>

definition white_space :: "string list" where
  "white_space =
     [[CHR 0x09], [CHR 0x0A], [CHR 0x0B], [CHR 0x0C], [CHR 0x0D], [CHR 0x20],
      [CHR 0xC2, CHR 0xA0],
      [CHR 0xE1, CHR 0x9A, CHR 0x80],
      [CHR 0xE2, CHR 0x80, CHR 0x80], [CHR 0xE2, CHR 0x80, CHR 0x81],
      [CHR 0xE2, CHR 0x80, CHR 0x82], [CHR 0xE2, CHR 0x80, CHR 0x83],
      [CHR 0xE2, CHR 0x80, CHR 0x84], [CHR 0xE2, CHR 0x80, CHR 0x85],
      [CHR 0xE2, CHR 0x80, CHR 0x86], [CHR 0xE2, CHR 0x80, CHR 0x87],
      [CHR 0xE2, CHR 0x80, CHR 0x88], [CHR 0xE2, CHR 0x80, CHR 0x89],
      [CHR 0xE2, CHR 0x80, CHR 0x8A],
      [CHR 0xE2, CHR 0x80, CHR 0xA8], [CHR 0xE2, CHR 0x80, CHR 0xA9],
      [CHR 0xE2, CHR 0x80, CHR 0xAF],
      [CHR 0xE2, CHR 0x81, CHR 0x9F],
      [CHR 0xE3, CHR 0x80, CHR 0x80],
      [CHR 0xEF, CHR 0xBB, CHR 0xBF]]"

definition starts_with :: "string \<Rightarrow> string \<Rightarrow> bool" where
  "starts_with s w = (w \<noteq> [] \<and> take (length w) s = w)"

text \<open>\<open>strip ws s\<close> removes from the front of \<open>s\<close> every leading occurrence of a member of \<open>ws\<close>.\<close>

function strip :: "string list \<Rightarrow> string \<Rightarrow> string" where
  "strip ws s = (case find (starts_with s) ws of
                   None \<Rightarrow> s
                 | Some w \<Rightarrow> strip ws (drop (length w) s))"
  by pat_completeness auto
termination
proof (relation "measure (\<lambda>(ws, s). length s)")
  show "wf (measure (\<lambda>(ws, s). length s))" by simp
next
  fix ws :: "string list" and s w :: string
  assume "find (starts_with s) ws = Some w"
  then have "starts_with s w" by (auto simp: find_Some_iff)
  then have "w \<noteq> []" and "take (length w) s = w" by (simp_all add: starts_with_def)
  then have "s \<noteq> []" by auto
  with \<open>w \<noteq> []\<close> show "((ws, drop (length w) s), (ws, s)) \<in> measure (\<lambda>(ws, s). length s)"
    by simp
qed

declare strip.simps [simp del]

text \<open>\<^verbatim>\<open>s.trim()\<close>: the white space is removed at both ends.\<close>

definition trim :: "string \<Rightarrow> string" where
  "trim s = rev (strip (map rev white_space) (rev (strip white_space s)))"

text \<open>\<^verbatim>\<open>n || d\<close> on numbers: 0 and \<^verbatim>\<open>NaN\<close> are falsy.\<close>

definition truthy_number :: "jsnumber \<Rightarrow> bool" where
  "truthy_number n = (n \<noteq> NaN \<and> n \<noteq> Num 0)"

definition or_number :: "jsnumber \<Rightarrow> jsnumber \<Rightarrow> jsnumber" where
  "or_number n d = (if truthy_number n then n else d)"




text \<open>\<^verbatim>\<open>Math.round(a / b)\<close> for integers \<open>a\<close> and \<open>b > 0\<close>: halves round up.\<close>

definition round_div :: "int \<Rightarrow> int \<Rightarrow> int" where
  "round_div a b = (2 * a + b) div (2 * b)"


section \<open>The HTTP client (api/client.ts)\<close>

datatype http_method = GET | POST | PUT | DELETE

text \<open>The URL paths, with the series id that the template strings splice in.\<close>

datatype endpoint =
    Occurrences_path
  | Series_path
  | Series_id_path int
  | Series_occurrence_path int

datatype body =
    No_body
  | Series_body CreateSeriesRequest
  | Update_body UpdateSeriesRequest
  | Override_body CreateOccurrenceOverrideRequest

text \<open>
  \<open>params\<close> is the query-string object, kept as an association list in the order the
  keys are written.
\<close>

record http_request =
  verb :: http_method
  path :: endpoint
  params :: "(string \<times> string) list"
  data :: body

definition fetchOccurrences :: "string \<Rightarrow> string \<Rightarrow> string option \<Rightarrow> http_request" where
  "fetchOccurrences startISO endISO tz =
     (let params0 = [(''start'', startISO), (''end'', endISO)];
          params1 = (case tz of
                       None \<Rightarrow> params0
                     | Some z \<Rightarrow> if truthy z then params0 @ [(''tz'', z)] else params0)
      in \<lparr>verb = GET, path = Occurrences_path, params = params1, data = No_body\<rparr>)"

definition createEventSeries :: "CreateSeriesRequest \<Rightarrow> http_request" where
  "createEventSeries d = \<lparr>verb = POST, path = Series_path, params = [], data = Series_body d\<rparr>"

definition updateEventSeries :: "int \<Rightarrow> UpdateSeriesRequest \<Rightarrow> http_request" where
  "updateEventSeries i d =
     \<lparr>verb = PUT, path = Series_id_path i, params = [], data = Update_body d\<rparr>"

definition deleteEventSeries :: "int \<Rightarrow> http_request" where
  "deleteEventSeries i = \<lparr>verb = DELETE, path = Series_id_path i, params = [], data = No_body\<rparr>"

definition createOccurrenceOverride :: "int \<Rightarrow> CreateOccurrenceOverrideRequest \<Rightarrow> http_request" where
  "createOccurrenceOverride seriesId d =
     \<lparr>verb = POST, path = Series_occurrence_path seriesId, params = [], data = Override_body d\<rparr>"

definition deleteOccurrence :: "int \<Rightarrow> string \<Rightarrow> http_request" where
  "deleteOccurrence seriesId occurrenceStartUTC =
     \<lparr>verb = DELETE, path = Series_occurrence_path seriesId,
      params = [(''occurrence_start_utc'', occurrenceStartUTC)], data = No_body\<rparr>"

text \<open>The exception key a request addresses: in the body of an upsert, in the query of a deletion.\<close>

definition upsert_key :: "http_request \<Rightarrow> string option" where
  "upsert_key r = (case data r of
                     Override_body d \<Rightarrow> Some (CreateOccurrenceOverrideRequest.occurrence_start_utc d)
                   | _ \<Rightarrow> None)"

definition deletion_key :: "http_request \<Rightarrow> string option" where
  "deletion_key r = map_of (params r) ''occurrence_start_utc''"


section \<open>The calendar slice (features/calendar/slice.ts)\<close>

definition setSelectedWeek :: "CalendarState \<Rightarrow> string \<Rightarrow> CalendarState" where
  "setSelectedWeek state payload = state\<lparr>selectedWeekStartISO := payload\<rparr>"

definition setTimezone :: "CalendarState \<Rightarrow> string \<Rightarrow> CalendarState" where
  "setTimezone state payload = state\<lparr>timezone := payload, occurrences := Map.empty\<rparr>"

definition clearOccurrences :: "CalendarState \<Rightarrow> CalendarState" where
  "clearOccurrences state = state\<lparr>occurrences := Map.empty\<rparr>"


section \<open>The event modal (components/EventModal.tsx)\<close>

text \<open>
  The \<open>duration\<close> state holds a number (initial value, or copied from the occurrence) or
  the text typed into the number input.
\<close>

datatype duration_field = Duration_number jsnumber | Duration_text string

text \<open>
  \<^verbatim>\<open>Number(duration)\<close>: a number is itself. The reading of a text as a number (the
  language's conversion of numeric literals, with fractions, exponents, hexadecimal digits
  and \<^verbatim>\<open>Infinity\<close>) is the parameter \<open>toNumber\<close>; nothing is assumed of it.
\<close>

definition Number :: "(string \<Rightarrow> jsnumber) \<Rightarrow> duration_field \<Rightarrow> jsnumber" where
  "Number toNumber d = (case d of Duration_number n \<Rightarrow> n | Duration_text s \<Rightarrow> toNumber s)"


text \<open>The form fields the save handler reads (the \<^verbatim>\<open>useState\<close> variables).\<close>

record form =
  title :: string
  startTime :: string
  duration :: duration_field
  link :: string
  "notes" :: string
  location :: string
  frequency :: freq
  eventType :: event_type
  selectedHost :: string


datatype update_mode = Single_mode | Series_mode

datatype save_error = Title_required | Start_time_required | Invalid_start_time

text \<open>
  \<open>handleSave\<close> returns the request it sends, or the validation error it shows instead.
  The two calls into the time library, \<^verbatim>\<open>parseDateTime(startTime, timezone)\<close> (\<open>None\<close>
  for \<^verbatim>\<open>null\<close> or an invalid date) and \<^verbatim>\<open>localToUTC\<close>, are parameters: they read
  the browser's own zone and clock; so is \<open>toNumber\<close>, as in \<open>Number\<close>. The refresh of
  the week and the closing of the modal that follow the request are not part of it.
\<close>

definition handleSave ::
  "(string \<Rightarrow> string \<Rightarrow> 'dt option) \<Rightarrow> ('dt \<Rightarrow> string) \<Rightarrow> (string \<Rightarrow> jsnumber) \<Rightarrow> string \<Rightarrow>
   form \<Rightarrow> Occurrence option \<Rightarrow> update_mode option \<Rightarrow> save_error + http_request" where
  "handleSave parseDateTime localToUTC toNumber tz f occurrence updateMode =
     (if \<not> truthy (trim (form.title f)) then Inl Title_required
      else if \<not> truthy (startTime f) then Inl Start_time_required
      else case parseDateTime (startTime f) tz of
        None \<Rightarrow> Inl Invalid_start_time
      | Some localDateTime \<Rightarrow>
          (let utcStartTime = localToUTC localDateTime in
           case occurrence of
             None \<Rightarrow>
               Inr (createEventSeries
                 \<lparr>CreateSeriesRequest.title = form.title f,
                  start_utc = utcStartTime,
                  duration_minutes = or_number (Number toNumber (duration f)) (Num 30),
                  freq = frequency f,
                  byweekday = Some [],
                  interval = Some (if frequency f = FORTNIGHTLY then 2 else 1),
                  until_utc = None,
                  link = Some (or_string (form.link f) []),
                  notes = Some (or_string (form.notes f) []),
                  location = Some (if eventType f = Event then or_string (form.location f) [] else []),
                  host = Some (or_string (selectedHost f) []),
                  event_type = Some (eventType f)\<rparr>)
           | Some occ \<Rightarrow>
               if updateMode = Some Series_mode then
                 Inr (updateEventSeries (series_id occ)
                   \<lparr>id = series_id occ,
                    title = Some (form.title f),
                    start_utc = Some utcStartTime,
                    duration_minutes = Some (or_number (Number toNumber (duration f)) (Num 30)),
                    freq = None,
                    byweekday = None,
                    interval = None,
                    until_utc = None,
                    link = Some (or_string (form.link f) []),
                    notes = Some (or_string (form.notes f) []),
                    location = Some (if eventType f = Event then or_string (form.location f) [] else []),
                    host = Some (or_string (selectedHost f) []),
                    event_type = Some (eventType f)\<rparr>)
               else
                 (let originalOccurrenceTime =
                        (if is_exception occ \<and> truthy_opt (original_occurrence_start_utc occ)
                         then or_string_opt (original_occurrence_start_utc occ) []
                         else Occurrence.occurrence_start_utc occ)
                  in Inr (createOccurrenceOverride (series_id occ)
                       \<lparr>occurrence_start_utc = originalOccurrenceTime,
                        override_start_utc = Some utcStartTime,
                        override_duration_minutes =
                          Some (or_number (Number toNumber (duration f)) (Num 30)),
                        override_title = Some (form.title f),
                        override_link = Some (form.link f),
                        override_notes = Some (form.notes f),
                        override_location = Some (if eventType f = Event then form.location f else []),
                        override_host = Some (selectedHost f),
                        override_event_type = None\<rparr>))))"

text \<open>
  \<open>handleDelete\<close>: the request sent, if any. \<open>confirmed\<close> is the answer to
  \<^verbatim>\<open>window.confirm\<close>.
\<close>

definition handleDelete :: "Occurrence option \<Rightarrow> update_mode \<Rightarrow> bool \<Rightarrow> http_request option" where
  "handleDelete occurrence mode confirmed =
     (case occurrence of
        None \<Rightarrow> None
      | Some occ \<Rightarrow>
          if \<not> confirmed then None
          else if mode = Single_mode
            then Some (deleteOccurrence (series_id occ) (Occurrence.occurrence_start_utc occ))
            else Some (deleteEventSeries (series_id occ)))"


section \<open>Drag and drop (components/BigCalendar.tsx, components/CalendarWeek.tsx)\<close>

text \<open>
  \<open>handleEventDrop\<close> of the big calendar. \<open>start\<close> and \<open>end\<close> are the dropped
  \<^verbatim>\<open>Date\<close>s in epoch milliseconds; \<open>toISOString\<close> is
  \<^verbatim>\<open>moment(start).utc().toISOString()\<close>.
\<close>

definition handleEventDrop :: "(int \<Rightarrow> string) \<Rightarrow> Occurrence \<Rightarrow> int \<Rightarrow> int \<Rightarrow> http_request" where
  "handleEventDrop toISOString occ startMs endMs =
     (let newDurationMs = endMs - startMs;
          newDurationMinutes = round_div newDurationMs (1000 * 60);
          finalDuration = max newDurationMinutes 15;
          newStartUTC = toISOString startMs;
          originalOccurrenceTime =
            (if is_exception occ \<and> truthy_opt (original_occurrence_start_utc occ)
             then or_string_opt (original_occurrence_start_utc occ) []
             else Occurrence.occurrence_start_utc occ)
      in createOccurrenceOverride (series_id occ)
           \<lparr>occurrence_start_utc = originalOccurrenceTime,
            override_start_utc = Some newStartUTC,
            override_duration_minutes = Some (Num (of_int finalDuration)),
            override_title = Some (Occurrence.title occ),
            override_link = Some (or_string (Occurrence.link occ) []),
            override_notes = Some (or_string (Occurrence.notes occ) []),
            override_location = Some (or_string (Occurrence.location occ) []),
            override_host = Some (or_string (Occurrence.host occ) []),
            override_event_type = Occurrence.event_type occ\<rparr>)"

text \<open>
  \<open>handleMouseUp\<close> of the week grid. The drag state (\<open>draggedEvent\<close>,
  \<open>hasDraggedDistance\<close>, \<open>isDragging\<close>) and what the handler reads from the page are
  inputs: whether the calendar and the grid element are mounted, the column and the snapped
  minute under the pointer, the UTC string of the dropped time, and whether the
  connectivity probe succeeded.
\<close>

datatype mouse_up_effect =
    No_effect
  | Open_modal Occurrence
  | Alert
  | Override_sent (sent: http_request)

definition handleMouseUp ::
  "Occurrence option \<Rightarrow> bool \<Rightarrow> bool \<Rightarrow> bool \<Rightarrow> bool \<Rightarrow> int \<Rightarrow> int \<Rightarrow> string \<Rightarrow> bool \<Rightarrow>
   mouse_up_effect" where
  "handleMouseUp draggedEvent hasDraggedDistance isDragging calendarMounted gridMounted
       dayIndex snappedMinutes newUtcTime apiReachable =
     (case draggedEvent of
        None \<Rightarrow> No_effect
      | Some ev \<Rightarrow>
          if \<not> hasDraggedDistance then Open_modal ev
          else if \<not> isDragging \<or> \<not> calendarMounted then No_effect
          else if \<not> gridMounted then No_effect
          else if 0 \<le> dayIndex \<and> dayIndex < 7 \<and> 0 \<le> snappedMinutes \<and> snappedMinutes < 1440 then
            (if \<not> truthy newUtcTime then Alert
             else
               (let originalOccurrenceTime =
                      (if is_exception ev \<and> truthy_opt (original_occurrence_start_utc ev)
                       then or_string_opt (original_occurrence_start_utc ev) []
                       else Occurrence.occurrence_start_utc ev);
                    overrideData =
                      \<lparr>occurrence_start_utc = originalOccurrenceTime,
                       override_start_utc = Some newUtcTime,
                       override_duration_minutes = Some (Occurrence.duration_minutes ev),
                       override_title = Some (Occurrence.title ev),
                       override_link = Some (or_string (Occurrence.link ev) []),
                       override_notes = Some (or_string (Occurrence.notes ev) []),
                       override_location = None,
                       override_host = None,
                       override_event_type = None\<rparr>
                in if \<not> apiReachable then Alert
                   else Override_sent (createOccurrenceOverride (series_id ev) overrideData)))
          else No_effect)"

text \<open>
  The claim's reading of an occurrence's original, un-overridden instant: the recorded
  \<open>original_occurrence_start_utc\<close> of an exception that carries one, otherwise the
  occurrence's own start.
\<close>

definition original_instant :: "Occurrence \<Rightarrow> string" where
  "original_instant occ =
     (case original_occurrence_start_utc occ of
        None \<Rightarrow> Occurrence.occurrence_start_utc occ
      | Some s \<Rightarrow> if is_exception occ \<and> s \<noteq> [] then s else Occurrence.occurrence_start_utc occ)"


section \<open>The date library as the time utilities use it (luxon)\<close>

text \<open>
  Instants are epoch milliseconds. A zone is a supported IANA zone, given by its name and
  its offset table: the UTC offset in minutes before the first transition, then the
  transitions in ascending order, each with the instant from which its offset applies.
  Names the runtime does not support are outside this model.
\<close>

datatype zone = Zone string int "(int \<times> int) list"

fun offset_in :: "int \<Rightarrow> (int \<times> int) list \<Rightarrow> int \<Rightarrow> int" where
  "offset_in cur [] t = cur"
| "offset_in cur ((since, off) # rest) t = (if t < since then cur else offset_in off rest t)"

text \<open>\<^verbatim>\<open>zone.offset(ts)\<close>, in minutes.\<close>

fun zone_offset :: "zone \<Rightarrow> int \<Rightarrow> int" where
  "zone_offset (Zone name base table) t = offset_in base table t"

definition utc :: zone where
  "utc = Zone ''UTC'' 0 []"

definition fixed_offset_zone :: "int \<Rightarrow> zone" where
  "fixed_offset_zone off = Zone ''UTC'' off []"

text \<open>
  A valid \<open>DateTime\<close> is an instant in a zone; its offset \<^verbatim>\<open>o\<close> and its calendar fields
  \<^verbatim>\<open>c\<close> are recomputed from these two whenever a copy is made, so they are functions
  here. \<open>localTS\<close> is the wall-clock reading: the milliseconds that the calendar fields
  spell when read as if they were UTC (\<^verbatim>\<open>objToLocalTS(c)\<close>).
\<close>

datatype DateTime = DateTime int zone | Invalid_DateTime

fun dt_offset :: "DateTime \<Rightarrow> int" where
  "dt_offset (DateTime t z) = zone_offset z t"
| "dt_offset Invalid_DateTime = 0"

fun localTS :: "DateTime \<Rightarrow> int" where
  "localTS (DateTime t z) = t + zone_offset z t * 60 * 1000"
| "localTS Invalid_DateTime = 0"

text \<open>
  \<^verbatim>\<open>fixOffset(localTS, o, tz)\<close>: the instant for a wall-clock reading, searched from the
  guessed offset \<open>o\<close>; the last branch is the library's ``hole time'', a reading that a
  forward jump of the clocks skips.
\<close>

definition fixOffset :: "int \<Rightarrow> int \<Rightarrow> zone \<Rightarrow> int \<times> int" where
  "fixOffset l off tz =
     (let utcGuess = l - off * 60 * 1000;
          o2 = zone_offset tz utcGuess
      in if off = o2 then (utcGuess, off)
         else
           (let utcGuess2 = utcGuess - (o2 - off) * 60 * 1000;
                o3 = zone_offset tz utcGuess2
            in if o2 = o3 then (utcGuess2, o2)
               else (l - min o2 o3 * 60 * 1000, max o2 o3)))"

fun setZone :: "DateTime \<Rightarrow> zone \<Rightarrow> DateTime" where
  "setZone (DateTime t z) z' = DateTime t z'"
| "setZone Invalid_DateTime z' = Invalid_DateTime"

definition toUTC :: "DateTime \<Rightarrow> DateTime" where
  "toUTC d = setZone d utc"

text \<open>
  \<^verbatim>\<open>set(values)\<close>: the calendar fields are replaced and the instant is searched again from
  the current offset. \<open>set_local d l\<close> replaces all of them by the reading \<open>l\<close>.
\<close>

fun set_local :: "DateTime \<Rightarrow> int \<Rightarrow> DateTime" where
  "set_local (DateTime t z) l = DateTime (fst (fixOffset l (zone_offset z t) z)) z"
| "set_local Invalid_DateTime l = Invalid_DateTime"

text \<open>The length of a calendar day on the wall clock, in milliseconds.\<close>

definition day_ms :: int where
  "day_ms = 24 * 60 * 60 * 1000"

text \<open>
  \<^verbatim>\<open>plus({ days: n })\<close> adds to the \<^verbatim>\<open>day\<close> field; \<^verbatim>\<open>minus(k)\<close> with a number takes
  \<open>k\<close> milliseconds from the instant.
\<close>

definition plus_days :: "DateTime \<Rightarrow> int \<Rightarrow> DateTime" where
  "plus_days d n = set_local d (localTS d + n * day_ms)"

fun minus_millis :: "DateTime \<Rightarrow> int \<Rightarrow> DateTime" where
  "minus_millis (DateTime t z) k = DateTime (t - k) z"
| "minus_millis Invalid_DateTime k = Invalid_DateTime"

text \<open>
  Midnight of the reading's day, and midnight of the Monday of its ISO week
  (1970-01-01 was a Thursday).
\<close>

definition day_floor :: "int \<Rightarrow> int" where
  "day_floor l = (l div day_ms) * day_ms"

definition week_floor :: "int \<Rightarrow> int" where
  "week_floor l = (let day = l div day_ms in (day - (day + 3) mod 7) * day_ms)"

definition startOf_day :: "DateTime \<Rightarrow> DateTime" where
  "startOf_day d = set_local d (day_floor (localTS d))"

definition startOf_week :: "DateTime \<Rightarrow> DateTime" where
  "startOf_week d = set_local d (week_floor (localTS d))"

text \<open>\<^verbatim>\<open>endOf(unit)\<close> is \<^verbatim>\<open>plus({ [unit]: 1 }).startOf(unit).minus(1)\<close>.\<close>

definition endOf_day :: "DateTime \<Rightarrow> DateTime" where
  "endOf_day d = minus_millis (startOf_day (plus_days d 1)) 1"

definition endOf_week :: "DateTime \<Rightarrow> DateTime" where
  "endOf_week d = minus_millis (startOf_week (plus_days d 7)) 1"

text \<open>
  An ISO date-time string with an explicit offset (or \<^verbatim>\<open>Z\<close>) is represented by what it
  spells: the wall-clock reading and the offset in minutes. \<open>Not_iso\<close> is any string that
  is no date-time, the empty string among them. Strings without an offset are outside this
  model: every string the utilities receive comes from \<^verbatim>\<open>toISO()\<close> or from the server.
\<close>

datatype iso = Iso int int | Not_iso

fun instant :: "iso \<Rightarrow> int option" where
  "instant (Iso l off) = Some (l - off * 60 * 1000)"
| "instant Not_iso = None"

fun fromISO :: "iso \<Rightarrow> zone \<Rightarrow> DateTime" where
  "fromISO (Iso l off) z = setZone (DateTime (l - off * 60 * 1000) (fixed_offset_zone off)) z"
| "fromISO Not_iso z = Invalid_DateTime"

text \<open>\<^verbatim>\<open>toISO() || ''\<close>: \<^verbatim>\<open>toISO()\<close> is \<^verbatim>\<open>null\<close> on an invalid date.\<close>

fun toISO_or_empty :: "DateTime \<Rightarrow> iso" where
  "toISO_or_empty (DateTime t z) = Iso (localTS (DateTime t z)) (dt_offset (DateTime t z))"
| "toISO_or_empty Invalid_DateTime = Not_iso"


section \<open>Time utilities (lib/time.ts)\<close>

definition getWeekStart :: "DateTime \<Rightarrow> DateTime" where
  "getWeekStart date = startOf_week date"

definition getWeekEnd :: "DateTime \<Rightarrow> DateTime" where
  "getWeekEnd date = endOf_week date"

text \<open>
  \<open>getWeekInfo\<close>: the two window edges (the list of day labels is not modelled). The first
  argument is the browser's zone, in which \<^verbatim>\<open>DateTime.fromISO(weekStartISO)\<close> is created
  before \<^verbatim>\<open>setZone(timezone)\<close>.
\<close>

record WeekInfo =
  weekStart :: iso
  weekEnd :: iso

definition getWeekInfo :: "zone \<Rightarrow> iso \<Rightarrow> zone \<Rightarrow> WeekInfo" where
  "getWeekInfo systemZone weekStartISO tz =
     (let weekStart = setZone (fromISO weekStartISO systemZone) tz;
          weekEnd = endOf_day (plus_days weekStart 6)
      in \<lparr>weekStart = toISO_or_empty weekStart, weekEnd = toISO_or_empty weekEnd\<rparr>)"

definition getCurrentWeekStart :: "int \<Rightarrow> zone \<Rightarrow> iso" where
  "getCurrentWeekStart now tz = toISO_or_empty (getWeekStart (DateTime now tz))"

datatype direction = Prev | Next

definition navigateWeek :: "iso \<Rightarrow> direction \<Rightarrow> zone \<Rightarrow> iso" where
  "navigateWeek currentWeekStartISO dir tz =
     (let current = fromISO currentWeekStartISO tz;
          delta = (if dir = Next then 7 else - 7);
          newWeekStart = plus_days current delta
      in toISO_or_empty newWeekStart)"

definition utcToLocal :: "iso \<Rightarrow> zone \<Rightarrow> DateTime" where
  "utcToLocal utcISOString tz = setZone (fromISO utcISOString utc) tz"

definition localToUTC :: "DateTime \<Rightarrow> iso" where
  "localToUTC localDateTime = toISO_or_empty (toUTC localDateTime)"

text \<open>
  Zone data for the examples: Tehran around March 2021, New York and London around March
  2024.
\<close>

definition tehran :: zone where
  "tehran = Zone ''Asia/Tehran'' 210 [(1616358600000, 270)]"

definition new_york :: zone where
  "new_york = Zone ''America/New_York'' (- 300) [(1710054000000, - 240)]"

definition london :: zone where
  "london = Zone ''Europe/London'' 0 [(1711846800000, 60)]"


section \<open>Wall-clock notions used in the statements\<close>

text \<open>The wall-clock reading that the instant \<open>t\<close> shows in the zone.\<close>

definition wall :: "zone \<Rightarrow> int \<Rightarrow> int" where
  "wall tz t = t + zone_offset tz t * 60 * 1000"

text \<open>
  \<open>hole_time tz l off\<close>: the search of \<open>fixOffset\<close> for the reading \<open>l\<close>, started from
  the offset \<open>off\<close>, ends in its last branch: neither the guessed offset nor the one found
  at the guess gives an instant that shows \<open>l\<close>.
\<close>

definition hole_time :: "zone \<Rightarrow> int \<Rightarrow> int \<Rightarrow> bool" where
  "hole_time tz l off =
     (let o2 = zone_offset tz (l - off * 60 * 1000)
      in o2 \<noteq> off \<and> zone_offset tz (l - o2 * 60 * 1000) \<noteq> o2)"

text \<open>The day of the week of a reading (0 is Monday, 6 is Sunday) and its time of day.\<close>

definition weekday :: "int \<Rightarrow> int" where
  "weekday l = (l div day_ms + 3) mod 7"

definition time_of_day :: "int \<Rightarrow> int" where
  "time_of_day l = l mod day_ms"

definition opposite :: "direction \<Rightarrow> direction" where
  "opposite dir = (if dir = Next then Prev else Next)"

text \<open>The number of days \<open>navigateWeek\<close> adds.\<close>

definition delta :: "direction \<Rightarrow> int" where
  "delta dir = (if dir = Next then 7 else - 7)"


section \<open>What a request carries\<close>


definition sent_interval :: "http_request \<Rightarrow> int option" where
  "sent_interval r = (case data r of Series_body d \<Rightarrow> CreateSeriesRequest.interval d | _ \<Rightarrow> None)"



section \<open>The server side\<close>

text \<open>
  Modelled from the spec: the stored records of the server, which is not among the
  sources. Section 3 lists the attributes of a series and of an exception; the field names
  are those of the client's \<^verbatim>\<open>EventSeries\<close> and \<^verbatim>\<open>EventException\<close> interfaces,
  with the location, host and event-type overrides the section adds.
\<close>

record EventSeries =
  id :: int
  title :: string
  start_utc :: string
  duration_minutes :: int
  freq :: freq
  byweekday :: "string list"
  interval :: int
  until_utc :: "string option"
  link :: string
  "notes" :: string
  location :: string
  host :: string
  event_type :: "event_type option"
  is_deleted :: bool
  created_at :: string

record EventException =
  id :: int
  series :: int
  occurrence_start_utc :: string
  deleted :: bool
  override_start_utc :: "string option"
  override_duration_minutes :: "int option"
  override_title :: "string option"
  override_link :: "string option"
  override_notes :: "string option"
  override_location :: "string option"
  override_host :: "string option"
  override_event_type :: "event_type option"
  created_at :: string

text \<open>
  Modelled from the spec: the lookup of the Exception Resolver (section 4.2), ``from
  \<^verbatim>\<open>occurrence_start_utc\<close> to exception (one per key; if duplicates exist in storage, the
  most-recently-created wins)''. The exceptions are listed in the order of their creation.
\<close>

definition exception_lookup :: "EventException list \<Rightarrow> string \<Rightarrow> EventException option" where
  "exception_lookup excs =
     map_of (rev (map (\<lambda>e. (EventException.occurrence_start_utc e, e)) excs))"

text \<open>
  Modelled from the spec: ``each override field replacing the series field only where the
  override is set; unset override fields inherit from series'' (section 4.2).
\<close>

definition inherit :: "'a option \<Rightarrow> 'a \<Rightarrow> 'a" where
  "inherit override base = (case override of None \<Rightarrow> base | Some v \<Rightarrow> v)"

text \<open>
  Modelled from the spec: the three cases of the Exception Resolver for one candidate
  instant (section 4.2): no matching exception, a matching exception with
  \<^verbatim>\<open>deleted=true\<close> (nothing is put out), a matching exception with
  \<^verbatim>\<open>deleted=false\<close>.
\<close>

definition resolve_candidate ::
  "EventSeries \<Rightarrow> EventException option \<Rightarrow> string \<Rightarrow> Occurrence option" where
  "resolve_candidate s ex c =
     (case ex of
        None \<Rightarrow>
          Some \<lparr>series_id = EventSeries.id s,
                Occurrence.occurrence_start_utc = c,
                original_occurrence_start_utc = Some c,
                duration_minutes = Num (of_int (EventSeries.duration_minutes s)),
                title = EventSeries.title s,
                link = EventSeries.link s,
                notes = EventSeries.notes s,
                location = EventSeries.location s,
                host = EventSeries.host s,
                event_type = EventSeries.event_type s,
                is_exception = False,
                frequency = EventSeries.freq s,
                localStart = None\<rparr>
      | Some e \<Rightarrow>
          if deleted e then None
          else
            Some \<lparr>series_id = EventSeries.id s,
                  Occurrence.occurrence_start_utc = inherit (EventException.override_start_utc e) c,
                  original_occurrence_start_utc = Some c,
                  duration_minutes =
                    Num (of_int (inherit (EventException.override_duration_minutes e)
                                   (EventSeries.duration_minutes s))),
                  title = inherit (EventException.override_title e) (EventSeries.title s),
                  link = inherit (EventException.override_link e) (EventSeries.link s),
                  notes = inherit (EventException.override_notes e) (EventSeries.notes s),
                  location = inherit (EventException.override_location e) (EventSeries.location s),
                  host = inherit (EventException.override_host e) (EventSeries.host s),
                  event_type =
                    (case EventException.override_event_type e of
                       None \<Rightarrow> EventSeries.event_type s
                     | Some v \<Rightarrow> Some v),
                  is_exception = True,
                  frequency = EventSeries.freq s,
                  localStart = None\<rparr>)"

text \<open>
  Modelled from the spec: \<^verbatim>\<open>resolve(candidateInstants, exceptions)\<close> of section 4.2, the
  candidates taken in their order.
\<close>

definition resolve :: "EventSeries \<Rightarrow> string list \<Rightarrow> EventException list \<Rightarrow> Occurrence list" where
  "resolve s candidates excs =
     List.map_filter (\<lambda>c. resolve_candidate s (exception_lookup excs c) c) candidates"

text \<open>
  Modelled from the spec: a candidate instant ``whose matching exception has
  \<^verbatim>\<open>deleted=true\<close>''.
\<close>

definition deleted_at :: "EventException list \<Rightarrow> string \<Rightarrow> bool" where
  "deleted_at excs c = (case exception_lookup excs c of None \<Rightarrow> False | Some e \<Rightarrow> deleted e)"

text \<open>
  Modelled from the spec: the annotation step of the Occurrence Materializer (section
  4.4), which ``accepts an optional display timezone; if supplied, additionally annotates
  each Occurrence with a local-time-formatted start string''. The formatting is a
  parameter.
\<close>

definition annotate ::
  "(string \<Rightarrow> string \<Rightarrow> string) \<Rightarrow> string option \<Rightarrow> Occurrence \<Rightarrow> Occurrence" where
  "annotate format tz occ =
     occ\<lparr>localStart := map_option (\<lambda>z. format z (Occurrence.occurrence_start_utc occ)) tz\<rparr>"

text \<open>
  Modelled from the spec: the answer of \<^verbatim>\<open>GET occurrences(window_start_utc,
  window_end_utc, optional tz)\<close> (section 6) for the resolved occurrences of the window: the
  display timezone is the request's \<^verbatim>\<open>tz\<close> parameter.
\<close>

definition occurrences_response ::
  "(string \<Rightarrow> string \<Rightarrow> string) \<Rightarrow> Occurrence list \<Rightarrow> http_request \<Rightarrow> Occurrence list" where
  "occurrences_response format resolved request =
     map (annotate format (map_of (params request) ''tz'')) resolved"


section \<open>Example data\<close>

text \<open>
  The second occurrence of a weekly series, moved by an exception from 09:00 to 10:00.
\<close>

definition moved_exception :: Occurrence where
  "moved_exception =
     \<lparr>series_id = 7,
      occurrence_start_utc = ''2024-01-08T10:00:00Z'',
      original_occurrence_start_utc = Some ''2024-01-08T09:00:00Z'',
      duration_minutes = Num 30, title = ''Standup'', link = [], notes = [], location = [],
      host = [], event_type = Some Meeting, is_exception = True, frequency = WEEKLY,
      localStart = None\<rparr>"

definition sample_form :: form where
  "sample_form =
     \<lparr>form.title = ''Standup'', startTime = ''2024-01-08T11:00'', duration = Duration_text ''45'',
      link = [], notes = [], location = [], frequency = FORTNIGHTLY, eventType = Meeting,
      selectedHost = []\<rparr>"

text \<open>
  The reading of the two duration texts of the examples as numbers, \<^verbatim>\<open>NaN\<close> elsewhere:
  example data for \<open>toNumber\<close>, not a model of the conversion.
\<close>

definition sample_toNumber :: "string \<Rightarrow> jsnumber" where
  "sample_toNumber s = (if s = ''45'' then Num 45 else if s = ''-5'' then Num (- 5) else NaN)"

text \<open>A stand-in for the time library on the form's start time.\<close>

definition sample_parse :: "string \<Rightarrow> string \<Rightarrow> unit option" where
  "sample_parse s tz = Some ()"

definition sample_toUTC :: "unit \<Rightarrow> string" where
  "sample_toUTC d = ''2024-01-08T11:00:00.000Z''"

definition sample_toISOString :: "int \<Rightarrow> string" where
  "sample_toISOString ms = ''2024-01-08T12:00:00.000Z''"

definition sample_format :: "string \<Rightarrow> string \<Rightarrow> string" where
  "sample_format tz startUtc = startUtc"

text \<open>
  The weekly series of the spec's examples (first occurrence 2024-01-01T09:00Z) and the
  exception that deletes its occurrence of 2024-01-08.
\<close>

definition weekly_series :: EventSeries where
  "weekly_series =
     \<lparr>EventSeries.id = 7, title = ''Standup'', start_utc = ''2024-01-01T09:00:00Z'',
      duration_minutes = 30,
      freq = WEEKLY, byweekday = [], interval = 1, until_utc = None, link = [], notes = [],
      location = [], host = [], event_type = Some Meeting, is_deleted = False,
      created_at = ''2023-12-01T00:00:00Z''\<rparr>"

definition deleted_second :: EventException where
  "deleted_second =
     \<lparr>EventException.id = 1, series = 7, occurrence_start_utc = ''2024-01-08T09:00:00Z'',
      deleted = True,
      override_start_utc = None, override_duration_minutes = None, override_title = None,
      override_link = None, override_notes = None, override_location = None,
      override_host = None, override_event_type = None,
      created_at = ''2023-12-02T00:00:00Z''\<rparr>"


section \<open>Properties of the calendar slice\<close>

text \<open>
  C9. For every calendar state and every payload, the \<open>setTimezone\<close> reducer sets the
  timezone to the payload and empties the whole cache of occurrences; the selected week,
  the loading flag and the error are left as they were.
\<close>

theorem setTimezone_resets_cache:
  "CalendarState.timezone (setTimezone state payload) = payload
   \<and> occurrences (setTimezone state payload) = Map.empty
   \<and> selectedWeekStartISO (setTimezone state payload) = selectedWeekStartISO state
   \<and> loading (setTimezone state payload) = loading state
   \<and> error (setTimezone state payload) = error state"
  by (simp add: setTimezone_def)


section \<open>Properties of the requests\<close>

lemma trim_Standup: "trim ''Standup'' = ''Standup''"
  by (simp add: trim_def strip.simps starts_with_def white_space_def)

lemma original_time_expr:
  "(if is_exception occ \<and> truthy_opt (original_occurrence_start_utc occ)
    then or_string_opt (original_occurrence_start_utc occ) []
    else Occurrence.occurrence_start_utc occ) = original_instant occ"
  by (simp add: original_instant_def truthy_opt_def truthy_def or_string_opt_def or_string_def
      split: option.splits)

text \<open>
  C1. Whenever ``edit this occurrence only'' in the modal (\<open>handleSave\<close> with a mode other
  than the whole series) or a drop in either calendar (\<open>handleEventDrop\<close>,
  \<open>handleMouseUp\<close>) sends an exception upsert, the request's \<open>occurrence_start_utc\<close> is the
  occurrence's original instant: the recorded \<open>original_occurrence_start_utc\<close> of an
  occurrence that is an exception and carries one, otherwise its \<open>occurrence_start_utc\<close>.
  The key depends on the occurrence alone, not on the form or on where it was dropped.
\<close>

theorem exception_key_is_original_instant:
  "(updateMode \<noteq> Some Series_mode \<longrightarrow>
      handleSave parse toUTCString toNumber tz f (Some occ) updateMode = Inr r \<longrightarrow>
      upsert_key r = Some (original_instant occ))
   \<and> upsert_key (handleEventDrop toISOString occ startMs endMs) = Some (original_instant occ)
   \<and> (handleMouseUp (Some occ) dragged dragging calendarMounted gridMounted dayIndex
         snappedMinutes newUtcTime apiReachable = Override_sent r' \<longrightarrow>
      upsert_key r' = Some (original_instant occ))"
proof (intro conjI impI)
  assume "updateMode \<noteq> Some Series_mode"
    and "handleSave parse toUTCString toNumber tz f (Some occ) updateMode = Inr r"
  then show "upsert_key r = Some (original_instant occ)"
    by (auto simp: handleSave_def Let_def original_time_expr upsert_key_def
        createOccurrenceOverride_def split: if_splits option.splits)
next
  show "upsert_key (handleEventDrop toISOString occ startMs endMs) = Some (original_instant occ)"
    by (simp add: handleEventDrop_def Let_def original_time_expr upsert_key_def
        createOccurrenceOverride_def)
next
  assume "handleMouseUp (Some occ) dragged dragging calendarMounted gridMounted dayIndex
         snappedMinutes newUtcTime apiReachable = Override_sent r'"
  then show "upsert_key r' = Some (original_instant occ)"
    by (auto simp: handleMouseUp_def Let_def original_time_expr upsert_key_def
        createOccurrenceOverride_def split: if_splits)
qed

text \<open>
  The moved occurrence of the examples, edited in the modal and dropped on Wednesday
  10:00 of the week grid: both requests are sent, and both address 09:00, the instant the
  series generated, not 10:00, where the exception shows it.
\<close>

theorem exception_key_is_original_instant_witness:
  "handleSave sample_parse sample_toUTC sample_toNumber ''Europe/London'' sample_form (Some moved_exception) None
     = Inr (projr (handleSave sample_parse sample_toUTC sample_toNumber ''Europe/London'' sample_form
                     (Some moved_exception) None))
   \<and> upsert_key (projr (handleSave sample_parse sample_toUTC sample_toNumber ''Europe/London'' sample_form
                     (Some moved_exception) None)) = Some ''2024-01-08T09:00:00Z''
   \<and> handleMouseUp (Some moved_exception) True True True True 2 600 ''2024-01-10T10:00:00.000Z'' True
     = Override_sent (sent (handleMouseUp (Some moved_exception) True True True True 2 600
                              ''2024-01-10T10:00:00.000Z'' True))
   \<and> upsert_key (sent (handleMouseUp (Some moved_exception) True True True True 2 600
                              ''2024-01-10T10:00:00.000Z'' True)) = Some ''2024-01-08T09:00:00Z''
   \<and> upsert_key (handleEventDrop sample_toISOString moved_exception 1704715200000 1704717000000)
     = Some ''2024-01-08T09:00:00Z''"
proof -
  have o: "original_instant moved_exception = ''2024-01-08T09:00:00Z''"
    by (simp add: original_instant_def moved_exception_def)
  have s: "handleSave sample_parse sample_toUTC sample_toNumber ''Europe/London'' sample_form (Some moved_exception) None
     = Inr (projr (handleSave sample_parse sample_toUTC sample_toNumber ''Europe/London'' sample_form
                     (Some moved_exception) None))"
    by (simp add: handleSave_def sample_parse_def sample_form_def trim_Standup truthy_def)
  have m: "handleMouseUp (Some moved_exception) True True True True 2 600 ''2024-01-10T10:00:00.000Z'' True
     = Override_sent (sent (handleMouseUp (Some moved_exception) True True True True 2 600
                              ''2024-01-10T10:00:00.000Z'' True))"
    by (simp add: handleMouseUp_def truthy_def Let_def)
  have n: "(None :: update_mode option) \<noteq> Some Series_mode" by simp
  from exception_key_is_original_instant[of None sample_parse sample_toUTC sample_toNumber
      "''Europe/London''"
      sample_form moved_exception
      "projr (handleSave sample_parse sample_toUTC sample_toNumber ''Europe/London'' sample_form
                (Some moved_exception) None)"
      sample_toISOString 1704715200000 1704717000000 True True True True 2 600
      "''2024-01-10T10:00:00.000Z''" True
      "sent (handleMouseUp (Some moved_exception) True True True True 2 600
               ''2024-01-10T10:00:00.000Z'' True)"]
    n s m
  show ?thesis unfolding o by blast
qed

text \<open>
  With the resolver of the specification the key is stable under repetition: whatever
  start an exception gives the occurrence of the candidate instant \<open>c\<close>, a drop of the
  resolved occurrence addresses \<open>c\<close> again.
\<close>

lemma repeated_drop_keeps_key:
  assumes "resolve_candidate s ex c = Some occ" and "c \<noteq> []"
  shows "upsert_key (handleEventDrop toISOString occ startMs endMs) = Some c"
proof -
  have "original_instant occ = c"
    using assms
    by (auto simp: resolve_candidate_def original_instant_def split: option.splits if_splits)
  then show ?thesis
    by (simp add: handleEventDrop_def Let_def original_time_expr upsert_key_def
        createOccurrenceOverride_def)
qed

text \<open>
  C2. ``Delete this occurrence only'' should address the occurrence's original instant,
  the key of its exception. \<open>handleDelete\<close> passes \<open>occurrence_start_utc\<close> instead: for
  the moved occurrence of the examples the deletion asks for 10:00, while the exception is
  keyed 09:00.
\<close>

theorem delete_single_sends_moved_start:
  "map_option deletion_key (handleDelete (Some moved_exception) Single_mode True)
     = Some (Some ''2024-01-08T10:00:00Z'')
   \<and> original_instant moved_exception = ''2024-01-08T09:00:00Z''"
  by (simp add: handleDelete_def deleteOccurrence_def deletion_key_def moved_exception_def
      original_instant_def)

text \<open>
  C6. A series-creation request built by \<open>handleSave\<close> (create mode: no occurrence is
  selected) has interval 2 if and only if the chosen frequency is \<open>FORTNIGHTLY\<close>, and
  interval 1 for every other frequency; and the request is built whenever the title is not
  blank, the start time is filled in and it parses.
\<close>

theorem create_request_interval:
  "(handleSave parse toUTCString toNumber tz f None updateMode = Inr r \<longrightarrow>
      verb r = POST \<and> path r = Series_path
      \<and> sent_interval r = Some (if frequency f = FORTNIGHTLY then 2 else 1)
      \<and> (sent_interval r = Some 2 \<longleftrightarrow> frequency f = FORTNIGHTLY)
      \<and> (sent_interval r = Some 1 \<longleftrightarrow> frequency f \<noteq> FORTNIGHTLY))
   \<and> (truthy (trim (form.title f)) \<and> truthy (startTime f) \<and> parse (startTime f) tz \<noteq> None \<longrightarrow>
        \<not> isl (handleSave parse toUTCString toNumber tz f None updateMode))"
  by (auto simp: handleSave_def Let_def sent_interval_def createEventSeries_def
      split: if_splits option.splits)

theorem create_request_interval_witness:
  "handleSave sample_parse sample_toUTC sample_toNumber ''Europe/London'' sample_form None None
     = Inr (projr (handleSave sample_parse sample_toUTC sample_toNumber ''Europe/London'' sample_form None None))
   \<and> truthy (trim (form.title sample_form)) \<and> truthy (startTime sample_form)
   \<and> sample_parse (startTime sample_form) ''Europe/London'' \<noteq> None
   \<and> frequency sample_form = FORTNIGHTLY
   \<and> sent_interval (projr (handleSave sample_parse sample_toUTC sample_toNumber ''Europe/London'' sample_form
                              None None)) = Some 2
   \<and> \<not> isl (handleSave sample_parse sample_toUTC sample_toNumber ''Europe/London'' sample_form None None)"
proof -
  have s: "handleSave sample_parse sample_toUTC sample_toNumber ''Europe/London'' sample_form None None
     = Inr (projr (handleSave sample_parse sample_toUTC sample_toNumber ''Europe/London'' sample_form None None))"
    by (simp add: handleSave_def sample_parse_def sample_form_def trim_Standup truthy_def)
  have v: "truthy (trim (form.title sample_form)) \<and> truthy (startTime sample_form)
           \<and> sample_parse (startTime sample_form) ''Europe/London'' \<noteq> None"
    by (simp add: sample_parse_def sample_form_def trim_Standup truthy_def)
  have q: "frequency sample_form = FORTNIGHTLY" by (simp add: sample_form_def)
  from create_request_interval[of sample_parse sample_toUTC sample_toNumber "''Europe/London''"
      sample_form None
      "projr (handleSave sample_parse sample_toUTC sample_toNumber ''Europe/London'' sample_form None None)"]
    s v q
  show ?thesis by simp
qed







text \<open>
  C8. \<open>fetchOccurrences\<close> sends a GET for the occurrences with the window's \<open>start\<close> and
  \<open>end\<close>, and with the \<open>tz\<close> query parameter if and only if the caller supplies a
  timezone, which is then the parameter's value. A timezone is a name, a non-empty string;
  the guard \<^verbatim>\<open>if (timezone)\<close> treats the empty string like a missing argument.
  \<open>localStart\<close> is an optional field of an occurrence: in the server's answer as the
  specification describes it, every occurrence carries it exactly when a timezone was
  supplied.
\<close>

theorem tz_parameter_iff_supplied:
  "verb (fetchOccurrences startISO endISO tz) = GET
   \<and> path (fetchOccurrences startISO endISO tz) = Occurrences_path
   \<and> map_of (params (fetchOccurrences startISO endISO tz)) ''start'' = Some startISO
   \<and> map_of (params (fetchOccurrences startISO endISO tz)) ''end'' = Some endISO
   \<and> map_of (params (fetchOccurrences startISO endISO tz)) ''tz''
       = (if tz = Some [] then None else tz)
   \<and> (tz \<noteq> Some [] \<longrightarrow>
        (map_of (params (fetchOccurrences startISO endISO tz)) ''tz'' \<noteq> None \<longleftrightarrow> tz \<noteq> None)
        \<and> map_of (params (fetchOccurrences startISO endISO tz)) ''tz'' = tz
        \<and> (\<forall>occ \<in> set (occurrences_response format resolved
                          (fetchOccurrences startISO endISO tz)).
             localStart occ \<noteq> None \<longleftrightarrow> tz \<noteq> None))"
  by (cases tz)
     (auto simp: fetchOccurrences_def truthy_def occurrences_response_def annotate_def Let_def)

text \<open>
  The call every component makes, with the timezone \<^verbatim>\<open>'UTC'\<close>: the request carries
  \<^verbatim>\<open>tz=UTC\<close> and the occurrence of the answer its local start; without the argument there
  is no \<open>tz\<close> parameter.
\<close>

theorem tz_parameter_iff_supplied_witness:
  "Some ''UTC'' \<noteq> Some []
   \<and> map_of (params (fetchOccurrences ''2024-01-01T00:00:00.000Z'' ''2024-01-07T23:59:59.999Z''
                     (Some ''UTC''))) ''tz'' = Some ''UTC''
   \<and> moved_exception\<lparr>localStart := Some ''2024-01-08T10:00:00Z''\<rparr>
       \<in> set (occurrences_response sample_format [moved_exception]
                (fetchOccurrences ''2024-01-01T00:00:00.000Z'' ''2024-01-07T23:59:59.999Z''
                   (Some ''UTC'')))
   \<and> localStart (moved_exception\<lparr>localStart := Some ''2024-01-08T10:00:00Z''\<rparr>) \<noteq> None
   \<and> map_of (params (fetchOccurrences ''2024-01-01T00:00:00.000Z'' ''2024-01-07T23:59:59.999Z''
                     None)) ''tz'' = None"
proof -
  have m: "moved_exception\<lparr>localStart := Some ''2024-01-08T10:00:00Z''\<rparr>
       \<in> set (occurrences_response sample_format [moved_exception]
                (fetchOccurrences ''2024-01-01T00:00:00.000Z'' ''2024-01-07T23:59:59.999Z''
                   (Some ''UTC'')))"
    by (simp add: occurrences_response_def annotate_def fetchOccurrences_def truthy_def
        sample_format_def moved_exception_def)
  have u: "Some ''UTC'' \<noteq> Some []" by simp
  have n: "(None :: string option) \<noteq> Some []" by simp
  from tz_parameter_iff_supplied[of "''2024-01-01T00:00:00.000Z''" "''2024-01-07T23:59:59.999Z''"
      "Some ''UTC''" sample_format "[moved_exception]"] m u
    tz_parameter_iff_supplied[of "''2024-01-01T00:00:00.000Z''" "''2024-01-07T23:59:59.999Z''"
      None sample_format "[moved_exception]"] n
  show ?thesis by auto
qed


section \<open>Properties of the exception resolver\<close>

lemma resolve_candidate_original:
  "resolve_candidate s ex c = Some occ \<Longrightarrow> original_occurrence_start_utc occ = Some c"
  by (auto simp: resolve_candidate_def split: option.splits if_splits)

lemma resolve_candidate_none:
  "resolve_candidate s (exception_lookup excs c) c = None \<longleftrightarrow> deleted_at excs c"
  by (auto simp: resolve_candidate_def deleted_at_def split: option.splits)

text \<open>The output lists, in the candidates' order, exactly the candidates that are not deleted.\<close>

lemma resolve_originals:
  "map original_occurrence_start_utc (resolve s candidates excs)
     = map Some (filter (\<lambda>c. \<not> deleted_at excs c) candidates)"
proof (induction candidates)
  case Nil
  then show ?case by (simp add: resolve_def map_filter_simps)
next
  case (Cons c cs)
  show ?case
  proof (cases "resolve_candidate s (exception_lookup excs c) c")
    case None
    then have "deleted_at excs c" by (simp add: resolve_candidate_none)
    with None Cons show ?thesis by (simp add: resolve_def map_filter_simps)
  next
    case (Some occ)
    then have "\<not> deleted_at excs c" using resolve_candidate_none[of s excs c] by simp
    with Some Cons resolve_candidate_original[OF Some] show ?thesis
      by (simp add: resolve_def map_filter_simps)
  qed
qed

text \<open>
  C3. For every candidate instant \<open>c\<close> whose matching exception \<open>e\<close> is marked deleted,
  the resolver's output holds no occurrence of \<open>c\<close>: its occurrences are, in order, those
  of the candidates that are not deleted. In particular the two candidates \<open>c'\<close> and
  \<open>c\<close>, of which only the second is deleted, yield exactly one occurrence, that of \<open>c'\<close>.
\<close>

theorem deleted_exception_omits_occurrence:
  assumes "exception_lookup excs c = Some e" and "deleted e"
  shows "(\<forall>occ \<in> set (resolve s candidates excs). original_occurrence_start_utc occ \<noteq> Some c)
         \<and> map original_occurrence_start_utc (resolve s candidates excs)
             = map Some (filter (\<lambda>k. \<not> deleted_at excs k) candidates)
         \<and> (\<not> deleted_at excs c' \<longrightarrow>
              length (resolve s [c', c] excs) = 1
              \<and> map original_occurrence_start_utc (resolve s [c', c] excs) = [Some c'])"
proof -
  have d: "deleted_at excs c" using assms by (simp add: deleted_at_def)
  have "Some c \<notin> set (map original_occurrence_start_utc (resolve s candidates excs))"
    unfolding resolve_originals using d by auto
  then have a: "\<forall>occ \<in> set (resolve s candidates excs). original_occurrence_start_utc occ \<noteq> Some c"
    by (metis image_eqI set_map)
  have b: "\<not> deleted_at excs c' \<longrightarrow>
              map original_occurrence_start_utc (resolve s [c', c] excs) = [Some c']"
    unfolding resolve_originals using d by simp
  have "\<not> deleted_at excs c' \<longrightarrow>
          length (map original_occurrence_start_utc (resolve s [c', c] excs)) = 1"
    using b by simp
  then have "\<not> deleted_at excs c' \<longrightarrow> length (resolve s [c', c] excs) = 1" by simp
  with a b resolve_originals show ?thesis by blast
qed

text \<open>
  The spec's example: the weekly series in a window with the candidates 01-01 and 01-08,
  the exception of 01-08 marked deleted. One occurrence is left, that of 01-01.
\<close>

theorem deleted_exception_omits_occurrence_witness:
  "exception_lookup [deleted_second] ''2024-01-08T09:00:00Z'' = Some deleted_second
   \<and> deleted deleted_second
   \<and> \<not> deleted_at [deleted_second] ''2024-01-01T09:00:00Z''
   \<and> length (resolve weekly_series [''2024-01-01T09:00:00Z'', ''2024-01-08T09:00:00Z'']
               [deleted_second]) = 1
   \<and> map original_occurrence_start_utc
        (resolve weekly_series [''2024-01-01T09:00:00Z'', ''2024-01-08T09:00:00Z''] [deleted_second])
       = [Some ''2024-01-01T09:00:00Z'']
   \<and> map Occurrence.occurrence_start_utc
        (resolve weekly_series [''2024-01-01T09:00:00Z'', ''2024-01-08T09:00:00Z''] [deleted_second])
       = [''2024-01-01T09:00:00Z'']"
proof -
  have l: "exception_lookup [deleted_second] ''2024-01-08T09:00:00Z'' = Some deleted_second"
    by (simp add: exception_lookup_def deleted_second_def)
  have e: "deleted deleted_second" by (simp add: deleted_second_def)
  have n: "\<not> deleted_at [deleted_second] ''2024-01-01T09:00:00Z''"
    by (simp add: deleted_at_def exception_lookup_def deleted_second_def)
  have v: "map Occurrence.occurrence_start_utc
        (resolve weekly_series [''2024-01-01T09:00:00Z'', ''2024-01-08T09:00:00Z''] [deleted_second])
       = [''2024-01-01T09:00:00Z'']"
    by (simp add: resolve_def map_filter_simps resolve_candidate_def exception_lookup_def
        deleted_second_def)
  from deleted_exception_omits_occurrence[OF l e, of weekly_series
      "[''2024-01-01T09:00:00Z'', ''2024-01-08T09:00:00Z'']" "''2024-01-01T09:00:00Z''"] l e n v
  show ?thesis by (simp add: deleted_at_def)
qed


section \<open>Properties of the time utilities\<close>

subsection \<open>The search for a wall-clock reading\<close>

lemma localTS_wall: "localTS (DateTime t tz) = wall tz t"
  by (simp add: wall_def)

text \<open>
  Outside the hole branch the search lands on an instant that shows the reading, with the
  offset in force at the first guess.
\<close>

lemma set_local_lands:
  assumes "\<not> hole_time tz l (zone_offset tz t)"
  shows "set_local (DateTime t tz) l
           = DateTime (l - zone_offset tz (l - zone_offset tz t * 60 * 1000) * 60 * 1000) tz"
    and "zone_offset tz (l - zone_offset tz (l - zone_offset tz t * 60 * 1000) * 60 * 1000)
           = zone_offset tz (l - zone_offset tz t * 60 * 1000)"
proof -
  let ?o = "zone_offset tz t"
  let ?a = "zone_offset tz (l - ?o * 60 * 1000)"
  show a: "zone_offset tz (l - ?a * 60 * 1000) = ?a"
  proof (cases "?a = ?o")
    case True
    then show ?thesis by simp
  next
    case False
    with assms show ?thesis by (simp add: hole_time_def Let_def)
  qed
  then show "set_local (DateTime t tz) l = DateTime (l - ?a * 60 * 1000) tz"
    using assms by (auto simp: fixOffset_def Let_def hole_time_def algebra_simps)
qed

lemma plus_days_lands:
  assumes "\<not> hole_time tz (wall tz t + n * day_ms) (zone_offset tz t)"
  shows "plus_days (DateTime t tz) n
           = DateTime (wall tz t + n * day_ms - zone_offset tz (t + n * day_ms) * 60 * 1000) tz"
    and "zone_offset tz (wall tz t + n * day_ms - zone_offset tz (t + n * day_ms) * 60 * 1000)
           = zone_offset tz (t + n * day_ms)"
proof -
  have e: "wall tz t + n * day_ms - zone_offset tz t * 60 * 1000 = t + n * day_ms"
    by (simp add: wall_def)
  show "plus_days (DateTime t tz) n
           = DateTime (wall tz t + n * day_ms - zone_offset tz (t + n * day_ms) * 60 * 1000) tz"
    unfolding plus_days_def localTS_wall using set_local_lands(1)[OF assms] unfolding e .
  show "zone_offset tz (wall tz t + n * day_ms - zone_offset tz (t + n * day_ms) * 60 * 1000)
           = zone_offset tz (t + n * day_ms)"
    using set_local_lands(2)[OF assms] unfolding e .
qed

text \<open>
  If the zone has the offset \<open>off\<close> at the first guess and at the instant that shows the
  reading with \<open>off\<close>, the search returns that instant.
\<close>

lemma set_local_returns:
  assumes "zone_offset tz (l - zone_offset tz t1 * 60 * 1000) = off"
    and "zone_offset tz (l - off * 60 * 1000) = off"
  shows "set_local (DateTime t1 tz) l = DateTime (l - off * 60 * 1000) tz"
  using assms by (auto simp: fixOffset_def Let_def algebra_simps)

subsection \<open>Mondays\<close>

lemma day_ms_pos: "0 < day_ms"
  by (simp add: day_ms_def)

lemma week_floor_eq: "week_floor l = (l div day_ms - weekday l) * day_ms"
  by (simp add: week_floor_def weekday_def Let_def)

lemma weekday_range: "0 \<le> weekday l" "weekday l \<le> 6"
  by (simp_all add: weekday_def)

lemma day_bounds: "(l div day_ms) * day_ms \<le> l" "l < (l div day_ms) * day_ms + day_ms"
proof -
  have "l = (l div day_ms) * day_ms + l mod day_ms" by simp
  moreover have "0 \<le> l mod day_ms" "l mod day_ms < day_ms"
    using day_ms_pos by simp_all
  ultimately show "(l div day_ms) * day_ms \<le> l" "l < (l div day_ms) * day_ms + day_ms"
    by linarith+
qed

lemma week_floor_div: "week_floor l div day_ms = l div day_ms - weekday l"
  using day_ms_pos by (simp add: week_floor_eq)

lemma mod7_cancel: "(q - (q + 3) mod 7 + 3) mod 7 = (0::int)"
  by presburger

text \<open>\<open>week_floor l\<close> is the midnight of a Monday, at most a week before \<open>l\<close>.\<close>

lemma week_floor_monday:
  "weekday (week_floor l) = 0" "time_of_day (week_floor l) = 0"
  "week_floor l \<le> l" "l < week_floor l + 7 * day_ms"
proof -
  show "weekday (week_floor l) = 0"
    unfolding weekday_def[of "week_floor l"] week_floor_div
    by (simp only: weekday_def mod7_cancel)
  show "time_of_day (week_floor l) = 0"
    by (simp add: time_of_day_def week_floor_eq)
  have "(l div day_ms - weekday l) * day_ms \<le> (l div day_ms) * day_ms"
    using weekday_range(1)[of l] day_ms_pos by (simp add: mult_right_mono)
  then show "week_floor l \<le> l" using day_bounds(1)[of l] by (simp add: week_floor_eq)
  have "(l div day_ms + 1) * day_ms \<le> (l div day_ms - weekday l + 7) * day_ms"
    using weekday_range(2)[of l] day_ms_pos by (intro mult_right_mono) simp_all
  then show "l < week_floor l + 7 * day_ms"
    using day_bounds(2)[of l] by (simp add: week_floor_eq algebra_simps)
qed

subsection \<open>The edges of a week\<close>

lemma getWeekStart_lands:
  assumes "\<not> hole_time tz (week_floor (wall tz t)) (zone_offset tz t)"
  shows "localTS (getWeekStart (DateTime t tz)) = week_floor (wall tz t)"
  unfolding getWeekStart_def startOf_week_def localTS_wall
  using set_local_lands[OF assms] by simp

lemma getWeekInfo_keeps_instant: "instant (weekStart (getWeekInfo sys w tz)) = instant w"
  by (cases w) (simp_all add: getWeekInfo_def Let_def)

text \<open>
  C4. \<open>getWeekInfo\<close> should hand over Monday 00:00:00.000 and the following Sunday
  23:59:59.999 of the week in the caller's timezone, the edges of \<open>getWeekStart\<close> and
  \<open>getWeekEnd\<close>. It never aligns its argument: it shows the instant of the stored week
  start in the timezone and ends the window at the end of the day six days later. The
  stored week start is a Monday midnight of the timezone it was computed in, London in the
  initial state; the timezone menu changes the timezone and keeps the stored string. For
  the week start of London on Wednesday 2024-01-03, which is 2024-01-01T00:00Z, and the
  timezone New York, whatever the browser's own zone, the window runs from Sunday 2023-12-31 19:00 to Saturday 2024-01-06 23:59:59.999 of New York, 6 days
  and 5 hours, while \<open>getWeekStart\<close> and \<open>getWeekEnd\<close> give Monday 2023-12-25 00:00 and
  Sunday 2023-12-31 23:59:59.999 for the same instant. The window of the next week, one
  \<open>navigateWeek\<close> further, begins 19 hours and a millisecond after this one has ended.
\<close>

theorem getWeekInfo_after_timezone_switch:
  "getCurrentWeekStart 1704240000000 london = Iso 1704067200000 0
   \<and> getWeekInfo sys (Iso 1704067200000 0) new_york
     = \<lparr>weekStart = Iso 1704049200000 (- 300), weekEnd = Iso 1704585599999 (- 300)\<rparr>
   \<and> weekday 1704049200000 = 6 \<and> time_of_day 1704049200000 = 19 * 60 * 60 * 1000
   \<and> weekday 1704585599999 = 5 \<and> time_of_day 1704585599999 = day_ms - 1
   \<and> toISO_or_empty (getWeekStart (utcToLocal (Iso 1704067200000 0) new_york))
       = Iso 1703462400000 (- 300)
   \<and> toISO_or_empty (getWeekEnd (utcToLocal (Iso 1704067200000 0) new_york))
       = Iso 1704067199999 (- 300)
   \<and> weekday 1703462400000 = 0 \<and> time_of_day 1703462400000 = 0
   \<and> weekday 1704067199999 = 6 \<and> time_of_day 1704067199999 = day_ms - 1
   \<and> instant (weekEnd (getWeekInfo sys (Iso 1704067200000 0) new_york)) = Some 1704603599999
   \<and> instant (weekStart (getWeekInfo sys (navigateWeek (Iso 1704067200000 0) Next new_york)
                 new_york)) = Some 1704672000000
   \<and> 1704672000000 - 1704603599999 = 19 * 60 * 60 * 1000 + (1 :: int)"
proof -
  have a: "getWeekInfo sys (Iso 1704067200000 0) new_york
     = \<lparr>weekStart = Iso 1704049200000 (- 300), weekEnd = Iso 1704585599999 (- 300)\<rparr>"
    by (simp add: getWeekInfo_def endOf_day_def startOf_day_def plus_days_def fixOffset_def
        new_york_def day_ms_def day_floor_def fixed_offset_zone_def Let_def)
  have b: "weekday 1704049200000 = 6 \<and> time_of_day 1704049200000 = 19 * 60 * 60 * 1000
   \<and> weekday 1704585599999 = 5 \<and> time_of_day 1704585599999 = day_ms - 1
   \<and> weekday 1703462400000 = 0 \<and> time_of_day 1703462400000 = 0
   \<and> weekday 1704067199999 = 6 \<and> time_of_day 1704067199999 = day_ms - 1"
    by (simp add: weekday_def time_of_day_def day_ms_def)
  have c: "toISO_or_empty (getWeekStart (utcToLocal (Iso 1704067200000 0) new_york))
       = Iso 1703462400000 (- 300)"
    by (simp add: getWeekStart_def utcToLocal_def startOf_week_def fixOffset_def new_york_def
        utc_def day_ms_def week_floor_def fixed_offset_zone_def Let_def)
  have d: "toISO_or_empty (getWeekEnd (utcToLocal (Iso 1704067200000 0) new_york))
       = Iso 1704067199999 (- 300)"
    by (simp add: getWeekEnd_def utcToLocal_def endOf_week_def startOf_week_def plus_days_def
        fixOffset_def new_york_def utc_def day_ms_def week_floor_def fixed_offset_zone_def Let_def)
  have e: "navigateWeek (Iso 1704067200000 0) Next new_york = Iso 1704654000000 (- 300)"
    by (simp add: navigateWeek_def plus_days_def fixOffset_def new_york_def day_ms_def
        fixed_offset_zone_def Let_def)
  have f: "instant (weekStart (getWeekInfo sys (Iso 1704654000000 (- 300)) new_york))
       = Some 1704672000000"
    by (simp add: getWeekInfo_keeps_instant)
  have g: "getCurrentWeekStart 1704240000000 london = Iso 1704067200000 0"
    by (simp add: getCurrentWeekStart_def getWeekStart_def startOf_week_def fixOffset_def
        london_def day_ms_def week_floor_def Let_def)
  show ?thesis unfolding a e f g using b c d by simp
qed

text \<open>
  C5. For every ISO string \<open>s\<close> and every zone, \<open>localToUTC (utcToLocal s tz)\<close> denotes
  the instant of \<open>s\<close>: it is the UTC string of that instant. Conversely \<open>utcToLocal\<close>
  gives back every date of the zone from its UTC string. No instant is excepted: a gap of
  the wall clock skips readings, not instants.
\<close>

theorem utc_local_round_trip:
  "instant (localToUTC (utcToLocal s tz)) = instant s
   \<and> localToUTC (utcToLocal (Iso l off) tz) = Iso (l - off * 60 * 1000) 0
   \<and> utcToLocal (localToUTC (DateTime t tz)) tz = DateTime t tz"
  by (cases s) (simp_all add: localToUTC_def utcToLocal_def toUTC_def utc_def)

subsection \<open>One week forward and back\<close>

lemma delta_opposite: "delta (opposite dir) = - delta dir"
  by (cases dir) (simp_all add: delta_def opposite_def)

lemma navigateWeek_delta:
  "navigateWeek w dir tz = toISO_or_empty (plus_days (fromISO w tz) (delta dir))"
  by (simp add: navigateWeek_def delta_def Let_def)

text \<open>
  The claim C10 as it is written, on the week start of Tehran 2021-03-15T00:00+03:30: one
  week later the clocks jump from 00:00 to 01:00, \<open>next\<close> lands on 01:00+04:30, and
  \<open>prev\<close> from there gives 2021-03-15T01:00+03:30, an hour after the start.
\<close>

theorem navigateWeek_round_trip_fails_at_gap:
  "instant (navigateWeek (navigateWeek (Iso 1615766400000 210) Next tehran) Prev tehran)
     \<noteq> instant (Iso 1615766400000 210)"
  by (simp add: navigateWeek_def plus_days_def fixOffset_def tehran_def day_ms_def
      fixed_offset_zone_def Let_def)

text \<open>
  C10, amended. Let \<open>w\<close> denote the instant \<open>t\<close>. \<open>navigateWeek\<close> in one direction and
  then in the opposite one gives a string that denotes \<open>t\<close> again, provided that the
  search for the same wall-clock reading seven days away lands on it (no spring-forward
  jump skips it), and that \<open>w\<close>'s own reading is not ambiguous against the offset found
  there: read with that offset, it is an instant at which the zone has \<open>w\<close>'s offset.
\<close>

theorem navigateWeek_there_and_back:
  assumes "instant w = Some t"
    and "\<not> hole_time tz (wall tz t + delta dir * day_ms) (zone_offset tz t)"
    and "zone_offset tz (wall tz t - zone_offset tz (t + delta dir * day_ms) * 60 * 1000)
           = zone_offset tz t"
  shows "instant (navigateWeek (navigateWeek w dir tz) (opposite dir) tz) = instant w"
proof -
  let ?n = "delta dir"
  let ?a = "zone_offset tz (t + ?n * day_ms)"
  let ?t1 = "wall tz t + ?n * day_ms - ?a * 60 * 1000"
  obtain l off where w: "w = Iso l off" and t: "t = l - off * 60 * 1000"
    using assms(1) by (cases w) auto
  have d: "fromISO w tz = DateTime t tz" by (simp add: w t)
  have s1: "plus_days (DateTime t tz) ?n = DateTime ?t1 tz"
    by (rule plus_days_lands(1)[OF assms(2)])
  have o1: "zone_offset tz ?t1 = ?a"
    by (rule plus_days_lands(2)[OF assms(2)])
  have l1: "localTS (DateTime ?t1 tz) = wall tz t + ?n * day_ms"
    unfolding localTS.simps o1 by simp
  have w1: "navigateWeek w dir tz = Iso (wall tz t + ?n * day_ms) ?a"
    unfolding navigateWeek_delta d s1 toISO_or_empty.simps l1 dt_offset.simps o1 by (rule refl)
  have d1: "fromISO (navigateWeek w dir tz) tz = DateTime ?t1 tz"
    unfolding w1 by simp
  have ret: "set_local (DateTime ?t1 tz) (wall tz t)
               = DateTime (wall tz t - zone_offset tz t * 60 * 1000) tz"
  proof (rule set_local_returns)
    show "zone_offset tz (wall tz t - zone_offset tz ?t1 * 60 * 1000) = zone_offset tz t"
      unfolding o1 by (rule assms(3))
    show "zone_offset tz (wall tz t - zone_offset tz t * 60 * 1000) = zone_offset tz t"
      by (simp add: wall_def)
  qed
  have s2: "plus_days (DateTime ?t1 tz) (delta (opposite dir)) = DateTime t tz"
    unfolding plus_days_def l1 delta_opposite using ret by (simp add: wall_def)
  have "navigateWeek (navigateWeek w dir tz) (opposite dir) tz
          = Iso (wall tz t) (zone_offset tz t)"
    unfolding navigateWeek_delta[of "navigateWeek w dir tz"] d1 s2 by (simp add: wall_def)
  then show ?thesis using assms(1) by (simp add: wall_def)
qed

text \<open>
  The week start of New York 2024-03-04T00:00-05:00, whose next week begins in
  daylight-saving time: forward and back returns to it.
\<close>

theorem navigateWeek_there_and_back_witness:
  "instant (Iso 1709510400000 (- 300)) = Some 1709528400000
   \<and> \<not> hole_time new_york (wall new_york 1709528400000 + delta Next * day_ms)
         (zone_offset new_york 1709528400000)
   \<and> zone_offset new_york (wall new_york 1709528400000
         - zone_offset new_york (1709528400000 + delta Next * day_ms) * 60 * 1000)
       = zone_offset new_york 1709528400000
   \<and> zone_offset new_york (1709528400000 + delta Next * day_ms)
       \<noteq> zone_offset new_york 1709528400000
   \<and> instant (navigateWeek (navigateWeek (Iso 1709510400000 (- 300)) Next new_york)
         (opposite Next) new_york) = Some 1709528400000"
proof -
  have h1: "instant (Iso 1709510400000 (- 300)) = Some 1709528400000" by simp
  have h2: "\<not> hole_time new_york (wall new_york 1709528400000 + delta Next * day_ms)
         (zone_offset new_york 1709528400000)"
    by (simp add: hole_time_def wall_def new_york_def delta_def day_ms_def Let_def)
  have h3: "zone_offset new_york (wall new_york 1709528400000
         - zone_offset new_york (1709528400000 + delta Next * day_ms) * 60 * 1000)
       = zone_offset new_york 1709528400000"
    by (simp add: wall_def new_york_def delta_def day_ms_def)
  have h4: "zone_offset new_york (1709528400000 + delta Next * day_ms)
       \<noteq> zone_offset new_york 1709528400000"
    by (simp add: new_york_def delta_def day_ms_def)
  from navigateWeek_there_and_back[OF h1 h2 h3] h1 h2 h3 h4 show ?thesis by simp
qed

end
